theory Spec2Isabelle
  imports Main "HOL-Library.Sublist"
begin

section \<open>The storage adapter\<close>

text \<open>
  The three services share one request pattern over a relational table. The handlers
  are the code of \<^verbatim>\<open>customer_service/app/main.py\<close>, \<^verbatim>\<open>order_service/app/main.py\<close> and
  \<^verbatim>\<open>product_service/app/main.py\<close>. The modules \<^verbatim>\<open>db.py\<close>, \<^verbatim>\<open>models.py\<close> and
  \<^verbatim>\<open>schemas.py\<close> that they import are not part of the sources, so the table, the
  session and the column sets below are modelled from the specification.
\<close>

text \<open>The driver's exceptions that the handlers tell apart: \<^verbatim>\<open>IntegrityError\<close>,
  \<^verbatim>\<open>OperationalError\<close>, and any other exception.\<close>

datatype db_exc = IntegrityError | OperationalError | OtherError

text \<open>What leaves a handler on an error exit: an \<^verbatim>\<open>HTTPException\<close> with its status code
  and detail, or a driver exception that no \<^verbatim>\<open>except\<close> clause caught.\<close>

datatype exc = HTTPException int string | Unhandled db_exc

text \<open>A successful response: the status code of the route decorator and the body.\<close>

type_synonym 'a result = "exc + int \<times> 'a"

text \<open>Modelled from the spec: the declaration of a table in \<^verbatim>\<open>models.py\<close> (absent). A table
  has a numeric primary key, generated on insert, and possibly a uniqueness constraint;
  \<open>clash\<close> says when two rows would violate it.\<close>

record 'r table_schema =
  pk :: "'r \<Rightarrow> int"
  set_pk :: "int \<Rightarrow> 'r \<Rightarrow> 'r"
  clash :: "'r \<Rightarrow> 'r \<Rightarrow> bool"

text \<open>Modelled from the spec: the committed table, its rows in insertion order, and the
  next generated id.\<close>

record 'r store =
  rows :: "'r list"
  next_id :: int

text \<open>Modelled from the spec: the unit of work of a session (\<^verbatim>\<open>db.add\<close>, an attribute
  assignment on a loaded object, \<^verbatim>\<open>db.delete\<close>), written to the table at commit.\<close>

datatype 'r change = Added 'r | Dirty 'r | Deleted 'r

record 'r session =
  db :: "'r store"
  pending :: "'r change list"

text \<open>Modelled from the spec: \<^verbatim>\<open>get_db\<close> of \<^verbatim>\<open>db.py\<close> (absent) hands every request a
  session of its own, with no pending work.\<close>

definition get_db :: "'r store \<Rightarrow> 'r session" where
  "get_db st = \<lparr>db = st, pending = []\<rparr>"

text \<open>Modelled from the spec: \<^verbatim>\<open>db.query(M).filter(M.id == i).first()\<close>.\<close>

definition query_first :: "'r table_schema \<Rightarrow> 'r session \<Rightarrow> int \<Rightarrow> 'r option" where
  "query_first sch s i = find (\<lambda>r. pk sch r = i) (rows (db s))"

definition add :: "'r session \<Rightarrow> 'r \<Rightarrow> 'r session" where
  "add s r = s\<lparr>pending := pending s @ [Added r]\<rparr>"

text \<open>The unit of work emits an UPDATE only for an object whose attributes changed.\<close>

definition mark_dirty :: "'r session \<Rightarrow> 'r \<Rightarrow> 'r \<Rightarrow> 'r session" where
  "mark_dirty s old new = (if new = old then s else s\<lparr>pending := pending s @ [Dirty new]\<rparr>)"

definition delete :: "'r session \<Rightarrow> 'r \<Rightarrow> 'r session" where
  "delete s r = s\<lparr>pending := pending s @ [Deleted r]\<rparr>"

definition rollback :: "'r session \<Rightarrow> 'r session" where
  "rollback s = s\<lparr>pending := []\<rparr>"

text \<open>Modelled from the spec: one statement against the table. An INSERT takes the next id
  and fails on a key or uniqueness violation; an UPDATE rewrites the row of that id and
  fails when another row holds the unique value; a DELETE removes the row of that id.\<close>

fun apply_change :: "'r table_schema \<Rightarrow> 'r store \<Rightarrow> 'r change \<Rightarrow> db_exc + 'r store" where
  "apply_change sch st (Added r) =
     (let r' = set_pk sch (next_id st) r
      in if list_ex (\<lambda>x. pk sch x = pk sch r' \<or> clash sch x r') (rows st)
         then Inl IntegrityError
         else Inr \<lparr>rows = rows st @ [r'], next_id = next_id st + 1\<rparr>)"
| "apply_change sch st (Dirty r) =
     (if list_ex (\<lambda>x. pk sch x \<noteq> pk sch r \<and> clash sch x r) (rows st)
      then Inl IntegrityError
      else Inr (st\<lparr>rows := map (\<lambda>x. if pk sch x = pk sch r then r else x) (rows st)\<rparr>))"
| "apply_change sch st (Deleted r) =
     Inr (st\<lparr>rows := filter (\<lambda>x. pk sch x \<noteq> pk sch r) (rows st)\<rparr>)"

fun flush :: "'r table_schema \<Rightarrow> 'r store \<Rightarrow> 'r change list \<Rightarrow> db_exc + 'r store" where
  "flush sch st [] = Inr st"
| "flush sch st (c # cs) =
     (case apply_change sch st c of
        Inl e \<Rightarrow> Inl e
      | Inr st' \<Rightarrow> flush sch st' cs)"

text \<open>Modelled from the spec: \<^verbatim>\<open>db.commit()\<close>. The argument \<open>fault\<close> is the storage failure,
  if any, that the driver raises at this commit for a reason outside the table (a lost
  connection, a constraint of another kind). A failed commit leaves the table as it was;
  the session keeps its unit of work until \<^verbatim>\<open>db.rollback()\<close>.\<close>

definition commit :: "'r table_schema \<Rightarrow> db_exc option \<Rightarrow> 'r session \<Rightarrow> db_exc option \<times> 'r session" where
  "commit sch fault s =
     (case fault of
        Some e \<Rightarrow> (Some e, s)
      | None \<Rightarrow>
          (case flush sch (db s) (pending s) of
             Inl e \<Rightarrow> (Some e, s)
           | Inr st \<Rightarrow> (None, \<lparr>db = st, pending = []\<rparr>)))"

text \<open>Modelled from the spec: \<^verbatim>\<open>db.refresh(obj)\<close> reloads the row of the object's id, and
  raises when the row is gone.\<close>

definition refresh :: "'r table_schema \<Rightarrow> 'r session \<Rightarrow> int \<Rightarrow> 'r option" where
  "refresh sch s i = find (\<lambda>r. pk sch r = i) (rows (db s))"

text \<open>Modelled from the spec: \<^verbatim>\<open>query.offset(skip).limit(limit).all()\<close>. A negative OFFSET or
  LIMIT is rejected by the store; the handlers do not catch that error.\<close>

definition offset_limit :: "int \<Rightarrow> int \<Rightarrow> 'r list \<Rightarrow> db_exc + 'r list" where
  "offset_limit skip limit xs =
     (if skip < 0 \<or> limit < 0 then Inl OtherError
      else Inr (take (nat limit) (drop (nat skip) xs)))"

section \<open>Customer service\<close>

text \<open>Modelled from the spec: the columns of \<^verbatim>\<open>Customer\<close> (\<^verbatim>\<open>models.py\<close>, absent), as named
  by \<^verbatim>\<open>create_customer\<close>.\<close>

record customer =
  customer_id :: int
  email :: string
  password_hash :: string
  first_name :: string
  last_name :: string
  phone_number :: "string option"
  shipping_address :: "string option"

text \<open>Modelled from the spec: \<^verbatim>\<open>CustomerCreate\<close> (\<^verbatim>\<open>schemas.py\<close>, absent).\<close>

record customer_create =
  cc_email :: string
  cc_password :: string
  cc_first_name :: string
  cc_last_name :: string
  cc_phone_number :: "string option"
  cc_shipping_address :: "string option"

text \<open>Modelled from the spec: \<^verbatim>\<open>CustomerUpdate\<close> (\<^verbatim>\<open>schemas.py\<close>, absent). \<open>None\<close> is a field
  the caller did not send; a nullable column can be sent as null (\<open>Some None\<close>).\<close>

record customer_update =
  cu_email :: "string option"
  cu_first_name :: "string option"
  cu_last_name :: "string option"
  cu_phone_number :: "string option option"
  cu_shipping_address :: "string option option"

text \<open>One item of the dictionary that \<^verbatim>\<open>model_dump(exclude_unset=True)\<close> returns.\<close>

datatype customer_item =
    Set_email string
  | Set_first_name string
  | Set_last_name string
  | Set_phone_number "string option"
  | Set_shipping_address "string option"

definition customer_model_dump :: "customer_update \<Rightarrow> customer_item list" where
  "customer_model_dump u =
     (case cu_email u of None \<Rightarrow> [] | Some v \<Rightarrow> [Set_email v]) @
     (case cu_first_name u of None \<Rightarrow> [] | Some v \<Rightarrow> [Set_first_name v]) @
     (case cu_last_name u of None \<Rightarrow> [] | Some v \<Rightarrow> [Set_last_name v]) @
     (case cu_phone_number u of None \<Rightarrow> [] | Some v \<Rightarrow> [Set_phone_number v]) @
     (case cu_shipping_address u of None \<Rightarrow> [] | Some v \<Rightarrow> [Set_shipping_address v])"

fun customer_setattr :: "customer \<Rightarrow> customer_item \<Rightarrow> customer" where
  "customer_setattr c (Set_email v) = c\<lparr>email := v\<rparr>"
| "customer_setattr c (Set_first_name v) = c\<lparr>first_name := v\<rparr>"
| "customer_setattr c (Set_last_name v) = c\<lparr>last_name := v\<rparr>"
| "customer_setattr c (Set_phone_number v) = c\<lparr>phone_number := v\<rparr>"
| "customer_setattr c (Set_shipping_address v) = c\<lparr>shipping_address := v\<rparr>"

text \<open>Modelled from the spec: the \<^verbatim>\<open>customers\<close> table, with its unique email.\<close>

definition customer_schema :: "customer table_schema" where
  "customer_schema =
     \<lparr>pk = customer_id,
      set_pk = (\<lambda>i c. c\<lparr>customer_id := i\<rparr>),
      clash = (\<lambda>x y. email x = email y)\<rparr>"

definition create_customer ::
  "db_exc option \<Rightarrow> customer_create \<Rightarrow> customer store \<Rightarrow> customer result \<times> customer session" where
  "create_customer fault customer st =
     (let s = get_db st;
          db_customer = \<lparr>customer_id = 0,
                         email = cc_email customer,
                         password_hash = cc_password customer,
                         first_name = cc_first_name customer,
                         last_name = cc_last_name customer,
                         phone_number = cc_phone_number customer,
                         shipping_address = cc_shipping_address customer\<rparr>;
          (raised, s') = commit customer_schema fault (add s db_customer)
      in case raised of
           None \<Rightarrow>
             (case refresh customer_schema s' (next_id st) of
                Some c \<Rightarrow> (Inr (201, c), s')
              | None \<Rightarrow> (Inl (HTTPException 500 ''Could not create customer.''), rollback s'))
         | Some IntegrityError \<Rightarrow>
             (Inl (HTTPException 400 ''Email already registered.''), rollback s')
         | Some _ \<Rightarrow>
             (Inl (HTTPException 500 ''Could not create customer.''), rollback s'))"

definition get_customer :: "int \<Rightarrow> customer store \<Rightarrow> customer result \<times> customer session" where
  "get_customer cid st =
     (let s = get_db st
      in case query_first customer_schema s cid of
           None \<Rightarrow> (Inl (HTTPException 404 ''Customer not found''), s)
         | Some c \<Rightarrow> (Inr (200, c), s))"

definition update_customer ::
  "db_exc option \<Rightarrow> int \<Rightarrow> customer_update \<Rightarrow> customer store \<Rightarrow> customer result \<times> customer session" where
  "update_customer fault cid customer_data st =
     (let s = get_db st
      in case query_first customer_schema s cid of
           None \<Rightarrow> (Inl (HTTPException 404 ''Customer not found''), s)
         | Some db_customer \<Rightarrow>
             (let update_data = customer_model_dump customer_data;
                  changed = foldl customer_setattr db_customer update_data;
                  (raised, s') = commit customer_schema fault (mark_dirty s db_customer changed)
              in case raised of
                   None \<Rightarrow>
                     (case refresh customer_schema s' (customer_id changed) of
                        Some c \<Rightarrow> (Inr (200, c), s')
                      | None \<Rightarrow> (Inl (HTTPException 500 ''Could not update customer''), rollback s'))
                 | Some IntegrityError \<Rightarrow>
                     (Inl (HTTPException 400 ''Updated email already exists''), rollback s')
                 | Some _ \<Rightarrow>
                     (Inl (HTTPException 500 ''Could not update customer''), rollback s')))"

definition delete_customer ::
  "db_exc option \<Rightarrow> int \<Rightarrow> customer store \<Rightarrow> unit result \<times> customer session" where
  "delete_customer fault cid st =
     (let s = get_db st
      in case query_first customer_schema s cid of
           None \<Rightarrow> (Inl (HTTPException 404 ''Customer not found''), s)
         | Some c \<Rightarrow>
             (let (raised, s') = commit customer_schema fault (delete s c)
              in case raised of
                   None \<Rightarrow> (Inr (204, ()), s')
                 | Some _ \<Rightarrow> (Inl (HTTPException 500 ''Could not delete customer''), rollback s')))"

text \<open>\<^verbatim>\<open>str.lower()\<close> on the ASCII letters; the store's case folding of \<^verbatim>\<open>ILIKE\<close> is taken
  to be the same.\<close>

definition lower_char :: "char \<Rightarrow> char" where
  "lower_char c =
     (case map_of (zip ''ABCDEFGHIJKLMNOPQRSTUVWXYZ'' ''abcdefghijklmnopqrstuvwxyz'') c of
        None \<Rightarrow> c
      | Some l \<Rightarrow> l)"

definition lower :: "string \<Rightarrow> string" where
  "lower s = map lower_char s"

text \<open>Modelled from the spec: the store's \<^verbatim>\<open>LIKE\<close>. In a pattern \<^verbatim>\<open>%\<close> stands for any run of
  characters and \<^verbatim>\<open>_\<close> for any one character; every other character stands for itself.
  (How a backslash in a pattern is read differs between stores and is not modelled.)\<close>

fun like_match :: "string \<Rightarrow> string \<Rightarrow> bool" where
  "like_match [] t = (t = [])"
| "like_match (p # ps) t =
     (if p = CHR ''%'' then
        (like_match ps t \<or> (case t of [] \<Rightarrow> False | c # cs \<Rightarrow> like_match (p # ps) cs))
      else if p = CHR ''_'' then
        (case t of [] \<Rightarrow> False | c # cs \<Rightarrow> like_match ps cs)
      else
        (case t of [] \<Rightarrow> False | c # cs \<Rightarrow> c = p \<and> like_match ps cs))"

definition ilike :: "string \<Rightarrow> string \<Rightarrow> bool" where
  "ilike column pattern = like_match (lower pattern) (lower column)"

text \<open>\<^verbatim>\<open>if search:\<close> holds for a string that is given and not empty.\<close>

definition list_customers ::
  "int option \<Rightarrow> int option \<Rightarrow> string option \<Rightarrow> customer store \<Rightarrow> customer list result \<times> customer session" where
  "list_customers skip_arg limit_arg search st =
     (let s = get_db st;
          skip = (case skip_arg of None \<Rightarrow> 0 | Some k \<Rightarrow> k);
          limit = (case limit_arg of None \<Rightarrow> 100 | Some k \<Rightarrow> k);
          query = rows (db s);
          query' =
            (if search \<noteq> None \<and> search \<noteq> Some [] then
               filter (\<lambda>c. ilike (first_name c) (''%'' @ the search @ ''%'') \<or>
                            ilike (last_name c) (''%'' @ the search @ ''%'') \<or>
                            ilike (email c) (''%'' @ the search @ ''%'')) query
             else query)
      in case offset_limit skip limit query' of
           Inl e \<Rightarrow> (Inl (Unhandled e), s)
         | Inr page \<Rightarrow> (Inr (200, page), s))"

text \<open>The routes of the customer application, and the table after a request is served.\<close>

datatype customer_request =
    GET_customer_health
  | GET_customer_root
  | POST_customers customer_create
  | GET_customers "int option" "int option" "string option"
  | GET_customers_id int
  | PUT_customers_id int customer_update
  | DELETE_customers_id int

fun customer_app :: "db_exc option \<Rightarrow> customer_request \<Rightarrow> customer store \<Rightarrow> customer store" where
  "customer_app fault GET_customer_health st = st"
| "customer_app fault GET_customer_root st = st"
| "customer_app fault (POST_customers c) st = db (snd (create_customer fault c st))"
| "customer_app fault (GET_customers skip limit search) st = db (snd (list_customers skip limit search st))"
| "customer_app fault (GET_customers_id i) st = db (snd (get_customer i st))"
| "customer_app fault (PUT_customers_id i u) st = db (snd (update_customer fault i u st))"
| "customer_app fault (DELETE_customers_id i) st = db (snd (delete_customer fault i st))"

section \<open>Order service\<close>

text \<open>Modelled from the spec: the columns of \<^verbatim>\<open>Order\<close> (\<^verbatim>\<open>models.py\<close>, absent). A row is
  built as \<^verbatim>\<open>Order(**order.model_dump())\<close>: the generated id and the fields of the request,
  passed through as given.\<close>

record 'a order =
  order_id :: int
  order_fields :: 'a

text \<open>Modelled from the spec: the \<^verbatim>\<open>orders\<close> table has no uniqueness constraint besides
  its key.\<close>

definition order_schema :: "'a order table_schema" where
  "order_schema =
     \<lparr>pk = order_id,
      set_pk = (\<lambda>i r. r\<lparr>order_id := i\<rparr>),
      clash = (\<lambda>x y. False)\<rparr>"

definition create_order ::
  "db_exc option \<Rightarrow> 'a \<Rightarrow> 'a order store \<Rightarrow> 'a order result \<times> 'a order session" where
  "create_order fault order st =
     (let s = get_db st;
          db_order = \<lparr>order_id = 0, order_fields = order\<rparr>;
          (raised, s') = commit order_schema fault (add s db_order)
      in case raised of
           Some e \<Rightarrow> (Inl (Unhandled e), s')
         | None \<Rightarrow>
             (case refresh order_schema s' (next_id st) of
                None \<Rightarrow> (Inl (Unhandled OtherError), s')
              | Some r \<Rightarrow> (Inr (201, r), s')))"

definition list_orders :: "'a order store \<Rightarrow> 'a order list result \<times> 'a order session" where
  "list_orders st = (let s = get_db st in (Inr (200, rows (db s)), s))"

definition get_order :: "int \<Rightarrow> 'a order store \<Rightarrow> 'a order result \<times> 'a order session" where
  "get_order oid st =
     (let s = get_db st
      in case query_first order_schema s oid of
           None \<Rightarrow> (Inl (HTTPException 404 ''Order not found''), s)
         | Some order \<Rightarrow> (Inr (200, order), s))"

definition delete_order ::
  "db_exc option \<Rightarrow> int \<Rightarrow> 'a order store \<Rightarrow> unit result \<times> 'a order session" where
  "delete_order fault oid st =
     (let s = get_db st
      in case query_first order_schema s oid of
           None \<Rightarrow> (Inl (HTTPException 404 ''Order not found''), s)
         | Some order \<Rightarrow>
             (let (raised, s') = commit order_schema fault (delete s order)
              in case raised of
                   Some e \<Rightarrow> (Inl (Unhandled e), s')
                 | None \<Rightarrow> (Inr (204, ()), s')))"

text \<open>The routes of the order application: there is no \<^verbatim>\<open>PUT\<close> route.\<close>

datatype 'a order_request =
    GET_order_health
  | GET_order_root
  | POST_orders 'a
  | GET_orders
  | GET_orders_id int
  | DELETE_orders_id int

fun order_app :: "db_exc option \<Rightarrow> 'a order_request \<Rightarrow> 'a order store \<Rightarrow> 'a order store" where
  "order_app fault GET_order_health st = st"
| "order_app fault GET_order_root st = st"
| "order_app fault (POST_orders order) st = db (snd (create_order fault order st))"
| "order_app fault GET_orders st = db (snd (list_orders st))"
| "order_app fault (GET_orders_id i) st = db (snd (get_order i st))"
| "order_app fault (DELETE_orders_id i) st = db (snd (delete_order fault i st))"

text \<open>A run of requests, each with the storage failure (if any) of its commit.\<close>

fun order_run :: "(db_exc option \<times> 'a order_request) list \<Rightarrow> 'a order store \<Rightarrow> 'a order store" where
  "order_run [] st = st"
| "order_run ((fault, req) # rest) st = order_run rest (order_app fault req st)"

section \<open>Product service\<close>

text \<open>Modelled from the spec: the columns of \<^verbatim>\<open>Product\<close> (\<^verbatim>\<open>models.py\<close>, absent): a unique
  name, a description, a price and an inventory count. The price is an opaque number
  for the handlers.\<close>

record product =
  product_id :: int
  name :: string
  description :: "string option"
  price :: int
  stock_quantity :: int

text \<open>Modelled from the spec: \<^verbatim>\<open>ProductCreate\<close> (\<^verbatim>\<open>schemas.py\<close>, absent).\<close>

record product_create =
  pc_name :: string
  pc_description :: "string option"
  pc_price :: int
  pc_stock_quantity :: int

text \<open>Modelled from the spec: \<^verbatim>\<open>ProductUpdate\<close> (\<^verbatim>\<open>schemas.py\<close>, absent); \<open>None\<close> is a field
  the caller did not send.\<close>

record product_update =
  pu_name :: "string option"
  pu_description :: "string option option"
  pu_price :: "int option"
  pu_stock_quantity :: "int option"

datatype product_item =
    Set_name string
  | Set_description "string option"
  | Set_price int
  | Set_stock_quantity int

definition product_model_dump :: "product_update \<Rightarrow> product_item list" where
  "product_model_dump u =
     (case pu_name u of None \<Rightarrow> [] | Some v \<Rightarrow> [Set_name v]) @
     (case pu_description u of None \<Rightarrow> [] | Some v \<Rightarrow> [Set_description v]) @
     (case pu_price u of None \<Rightarrow> [] | Some v \<Rightarrow> [Set_price v]) @
     (case pu_stock_quantity u of None \<Rightarrow> [] | Some v \<Rightarrow> [Set_stock_quantity v])"

fun product_setattr :: "product \<Rightarrow> product_item \<Rightarrow> product" where
  "product_setattr p (Set_name v) = p\<lparr>name := v\<rparr>"
| "product_setattr p (Set_description v) = p\<lparr>description := v\<rparr>"
| "product_setattr p (Set_price v) = p\<lparr>price := v\<rparr>"
| "product_setattr p (Set_stock_quantity v) = p\<lparr>stock_quantity := v\<rparr>"

text \<open>Modelled from the spec: the \<^verbatim>\<open>products\<close> table, with its unique name.\<close>

definition product_schema :: "product table_schema" where
  "product_schema =
     \<lparr>pk = product_id,
      set_pk = (\<lambda>i p. p\<lparr>product_id := i\<rparr>),
      clash = (\<lambda>x y. name x = name y)\<rparr>"

definition create_product ::
  "db_exc option \<Rightarrow> product_create \<Rightarrow> product store \<Rightarrow> product result \<times> product session" where
  "create_product fault product st =
     (let s = get_db st;
          db_product = \<lparr>product_id = 0,
                        name = pc_name product,
                        description = pc_description product,
                        price = pc_price product,
                        stock_quantity = pc_stock_quantity product\<rparr>;
          (raised, s') = commit product_schema fault (add s db_product)
      in case raised of
           None \<Rightarrow>
             (case refresh product_schema s' (next_id st) of
                Some p \<Rightarrow> (Inr (201, p), s')
              | None \<Rightarrow> (Inl (HTTPException 500 ''Could not create product''), rollback s'))
         | Some IntegrityError \<Rightarrow>
             (Inl (HTTPException 400 ''Product already exists''), rollback s')
         | Some _ \<Rightarrow>
             (Inl (HTTPException 500 ''Could not create product''), rollback s'))"

definition list_products ::
  "int option \<Rightarrow> int option \<Rightarrow> product store \<Rightarrow> product list result \<times> product session" where
  "list_products skip_arg limit_arg st =
     (let s = get_db st;
          skip = (case skip_arg of None \<Rightarrow> 0 | Some k \<Rightarrow> k);
          limit = (case limit_arg of None \<Rightarrow> 100 | Some k \<Rightarrow> k)
      in case offset_limit skip limit (rows (db s)) of
           Inl e \<Rightarrow> (Inl (Unhandled e), s)
         | Inr page \<Rightarrow> (Inr (200, page), s))"

definition get_product :: "int \<Rightarrow> product store \<Rightarrow> product result \<times> product session" where
  "get_product pid st =
     (let s = get_db st
      in case query_first product_schema s pid of
           None \<Rightarrow> (Inl (HTTPException 404 ''Product not found''), s)
         | Some p \<Rightarrow> (Inr (200, p), s))"

definition update_product ::
  "db_exc option \<Rightarrow> int \<Rightarrow> product_update \<Rightarrow> product store \<Rightarrow> product result \<times> product session" where
  "update_product fault pid product_data st =
     (let s = get_db st
      in case query_first product_schema s pid of
           None \<Rightarrow> (Inl (HTTPException 404 ''Product not found''), s)
         | Some product \<Rightarrow>
             (let update_data = product_model_dump product_data;
                  changed = foldl product_setattr product update_data;
                  (raised, s') = commit product_schema fault (mark_dirty s product changed)
              in case raised of
                   None \<Rightarrow>
                     (case refresh product_schema s' (product_id changed) of
                        Some p \<Rightarrow> (Inr (200, p), s')
                      | None \<Rightarrow> (Inl (HTTPException 500 ''Could not update product''), rollback s'))
                 | Some _ \<Rightarrow>
                     (Inl (HTTPException 500 ''Could not update product''), rollback s')))"

definition delete_product ::
  "db_exc option \<Rightarrow> int \<Rightarrow> product store \<Rightarrow> unit result \<times> product session" where
  "delete_product fault pid st =
     (let s = get_db st
      in case query_first product_schema s pid of
           None \<Rightarrow> (Inl (HTTPException 404 ''Product not found''), s)
         | Some p \<Rightarrow>
             (let (raised, s') = commit product_schema fault (delete s p)
              in case raised of
                   None \<Rightarrow> (Inr (204, ()), s')
                 | Some _ \<Rightarrow> (Inl (HTTPException 500 ''Could not delete product''), rollback s')))"

section \<open>Startup\<close>

text \<open>How \<^verbatim>\<open>startup_event\<close> ends: the initialisation was skipped, the tables were created,
  the attempts ran out (the service starts without them), \<^verbatim>\<open>sys.exit\<close> was called, or an
  exception left the startup hook, which makes the server give up the start.\<close>

datatype startup_outcome =
    Skipped
  | Initialized
  | Exhausted
  | SysExit int
  | Propagated db_exc

text \<open>The outcome, the number of calls of \<^verbatim>\<open>create_all\<close> and the seconds slept.\<close>

type_synonym startup_run = "startup_outcome \<times> nat \<times> nat"

text \<open>\<^verbatim>\<open>os.getenv("DISABLE_DB", "false").lower() == "true"\<close>; the argument is the variable of
  the environment, if set.\<close>

definition db_disabled :: "string option \<Rightarrow> bool" where
  "db_disabled var = (lower (case var of None \<Rightarrow> ''false'' | Some v \<Rightarrow> v) = ''true'')"

text \<open>The body of \<^verbatim>\<open>for i in range(max_retries)\<close> of the customer service. \<open>create_all i\<close>
  is what \<^verbatim>\<open>Base.metadata.create_all\<close> raises at attempt \<open>i\<close>, if anything; \<open>n\<close> counts the
  attempts left.\<close>

fun customer_retry :: "(nat \<Rightarrow> db_exc option) \<Rightarrow> nat \<Rightarrow> nat \<Rightarrow> nat \<Rightarrow> startup_run" where
  "customer_retry create_all 0 i slept = (Exhausted, i, slept)"
| "customer_retry create_all (Suc n) i slept =
     (case create_all i of
        None \<Rightarrow> (Initialized, Suc i, slept)
      | Some OperationalError \<Rightarrow> customer_retry create_all n (Suc i) (slept + 5)
      | Some _ \<Rightarrow> (SysExit 1, Suc i, slept))"

definition customer_startup_event :: "string option \<Rightarrow> (nat \<Rightarrow> db_exc option) \<Rightarrow> startup_run" where
  "customer_startup_event disable_db create_all =
     (if db_disabled disable_db then (Skipped, 0, 0)
      else let max_retries = 10 in customer_retry create_all max_retries 0 0)"

text \<open>The loop of the order and product services catches \<^verbatim>\<open>OperationalError\<close> only.\<close>

fun plain_retry :: "(nat \<Rightarrow> db_exc option) \<Rightarrow> nat \<Rightarrow> nat \<Rightarrow> nat \<Rightarrow> startup_run" where
  "plain_retry create_all 0 i slept = (Exhausted, i, slept)"
| "plain_retry create_all (Suc n) i slept =
     (case create_all i of
        None \<Rightarrow> (Initialized, Suc i, slept)
      | Some OperationalError \<Rightarrow> plain_retry create_all n (Suc i) (slept + 5)
      | Some e \<Rightarrow> (Propagated e, Suc i, slept))"

definition order_startup_event :: "string option \<Rightarrow> (nat \<Rightarrow> db_exc option) \<Rightarrow> startup_run" where
  "order_startup_event disable_db create_all =
     (if db_disabled disable_db then (Skipped, 0, 0)
      else plain_retry create_all 10 0 0)"

definition product_startup_event :: "string option \<Rightarrow> (nat \<Rightarrow> db_exc option) \<Rightarrow> startup_run" where
  "product_startup_event disable_db create_all =
     (if db_disabled disable_db then (Skipped, 0, 0)
      else plain_retry create_all 10 0 0)"

text \<open>The process does not serve after \<^verbatim>\<open>sys.exit\<close> or after an exception left the hook.\<close>

fun terminated :: "startup_outcome \<Rightarrow> bool" where
  "terminated (SysExit c) = True"
| "terminated (Propagated e) = True"
| "terminated other = False"


section \<open>Auxiliary notions for the statements\<close>

text \<open>The row that \<^verbatim>\<open>create_customer\<close> builds, with the id the table gives it.\<close>

definition new_customer :: "int \<Rightarrow> customer_create \<Rightarrow> customer" where
  "new_customer i c =
     \<lparr>customer_id = i, email = cc_email c, password_hash = cc_password c,
      first_name = cc_first_name c, last_name = cc_last_name c,
      phone_number = cc_phone_number c, shipping_address = cc_shipping_address c\<rparr>"

text \<open>A partial update read field by field: a field that was sent takes the sent value,
  a field that was not sent keeps its value.\<close>

definition customer_patch :: "customer_update \<Rightarrow> customer \<Rightarrow> customer" where
  "customer_patch u c =
     c\<lparr>email := (case cu_email u of None \<Rightarrow> email c | Some v \<Rightarrow> v),
       first_name := (case cu_first_name u of None \<Rightarrow> first_name c | Some v \<Rightarrow> v),
       last_name := (case cu_last_name u of None \<Rightarrow> last_name c | Some v \<Rightarrow> v),
       phone_number := (case cu_phone_number u of None \<Rightarrow> phone_number c | Some v \<Rightarrow> v),
       shipping_address :=
         (case cu_shipping_address u of None \<Rightarrow> shipping_address c | Some v \<Rightarrow> v)\<rparr>"

definition new_product :: "int \<Rightarrow> product_create \<Rightarrow> product" where
  "new_product i p =
     \<lparr>product_id = i, name = pc_name p, description = pc_description p,
      price = pc_price p, stock_quantity = pc_stock_quantity p\<rparr>"

definition product_patch :: "product_update \<Rightarrow> product \<Rightarrow> product" where
  "product_patch u p =
     p\<lparr>name := (case pu_name u of None \<Rightarrow> name p | Some v \<Rightarrow> v),
       description := (case pu_description u of None \<Rightarrow> description p | Some v \<Rightarrow> v),
       price := (case pu_price u of None \<Rightarrow> price p | Some v \<Rightarrow> v),
       stock_quantity :=
         (case pu_stock_quantity u of None \<Rightarrow> stock_quantity p | Some v \<Rightarrow> v)\<rparr>"

text \<open>The empty partial inputs.\<close>

definition no_customer_update :: customer_update where
  "no_customer_update =
     \<lparr>cu_email = None, cu_first_name = None, cu_last_name = None,
      cu_phone_number = None, cu_shipping_address = None\<rparr>"

definition no_product_update :: product_update where
  "no_product_update =
     \<lparr>pu_name = None, pu_description = None, pu_price = None, pu_stock_quantity = None\<rparr>"

text \<open>The specification's search: the text contains the search string as a substring,
  letter case ignored.\<close>

definition contains_ci :: "string \<Rightarrow> string \<Rightarrow> bool" where
  "contains_ci s t = sublist (lower s) (lower t)"

definition customer_matches :: "string \<Rightarrow> customer \<Rightarrow> bool" where
  "customer_matches s c =
     (contains_ci s (first_name c) \<or> contains_ci s (last_name c) \<or> contains_ci s (email c))"

text \<open>The characters that \<^verbatim>\<open>LIKE\<close> does not read literally.\<close>

definition like_special :: "char \<Rightarrow> bool" where
  "like_special c = (c = CHR ''%'' \<or> c = CHR ''_'' \<or> c = CHR 0x5C)"

text \<open>The invariant of the customer table: ids and emails are unique.\<close>

definition customer_store_ok :: "customer store \<Rightarrow> bool" where
  "customer_store_ok st =
     (distinct (map customer_id (rows st)) \<and> distinct (map email (rows st)))"

fun customer_run ::
  "(db_exc option \<times> customer_request) list \<Rightarrow> customer store \<Rightarrow> customer store" where
  "customer_run [] st = st"
| "customer_run ((fault, req) # rest) st = customer_run rest (customer_app fault req st)"

text \<open>A well-formed order table: ids are unique and below the next generated id.\<close>

definition order_store_ok :: "'a order store \<Rightarrow> bool" where
  "order_store_ok st =
     (distinct (map order_id (rows st)) \<and> list_all (\<lambda>r. order_id r < next_id st) (rows st))"

text \<open>Example data.\<close>

definition ann :: customer where
  "ann = \<lparr>customer_id = 1, email = ''a@x.com'', password_hash = ''h1'',
          first_name = ''Ann'', last_name = ''Zuberi'',
          phone_number = Some ''555'', shipping_address = None\<rparr>"

definition bob :: customer where
  "bob = \<lparr>customer_id = 2, email = ''b@x.com'', password_hash = ''h2'',
          first_name = ''Bob'', last_name = ''Zane'',
          phone_number = None, shipping_address = Some ''1 Main St''\<rparr>"

definition two_customers :: "customer store" where
  "two_customers = \<lparr>rows = [ann, bob], next_id = 3\<rparr>"

definition five_orders :: "string order store" where
  "five_orders =
     \<lparr>rows = [\<lparr>order_id = 1, order_fields = ''a''\<rparr>, \<lparr>order_id = 2, order_fields = ''b''\<rparr>,
              \<lparr>order_id = 3, order_fields = ''c''\<rparr>, \<lparr>order_id = 4, order_fields = ''d''\<rparr>,
              \<lparr>order_id = 5, order_fields = ''e''\<rparr>],
      next_id = 6\<rparr>"

definition pen :: product where
  "pen = \<lparr>product_id = 1, name = ''Pen'', description = None, price = 150, stock_quantity = 10\<rparr>"

definition ink :: product where
  "ink = \<lparr>product_id = 2, name = ''Ink'', description = Some ''black'', price = 700,
          stock_quantity = 3\<rparr>"

definition two_products :: "product store" where
  "two_products = \<lparr>rows = [pen, ink], next_id = 3\<rparr>"

definition only_first_name :: customer_update where
  "only_first_name =
     \<lparr>cu_email = None, cu_first_name = Some ''X'', cu_last_name = None,
      cu_phone_number = None, cu_shipping_address = None\<rparr>"

definition only_price :: product_update where
  "only_price =
     \<lparr>pu_name = None, pu_description = None, pu_price = Some 175, pu_stock_quantity = None\<rparr>"

definition rename_to_pen :: product_update where
  "rename_to_pen =
     \<lparr>pu_name = Some ''Pen'', pu_description = None, pu_price = None,
      pu_stock_quantity = None\<rparr>"

definition email_of_ann :: customer_update where
  "email_of_ann =
     \<lparr>cu_email = Some ''a@x.com'', cu_first_name = None, cu_last_name = None,
      cu_phone_number = None, cu_shipping_address = None\<rparr>"

definition carl :: customer_create where
  "carl = \<lparr>cc_email = ''c@x.com'', cc_password = ''h3'', cc_first_name = ''Carl'',
           cc_last_name = ''Young'', cc_phone_number = None, cc_shipping_address = None\<rparr>"

definition cap :: product_create where
  "cap = \<lparr>pc_name = ''Cap'', pc_description = None, pc_price = 900, pc_stock_quantity = 5\<rparr>"

definition five_products :: "product store" where
  "five_products =
     \<lparr>rows = [pen, ink,
              \<lparr>product_id = 3, name = ''Cup'', description = None, price = 400, stock_quantity = 8\<rparr>,
              \<lparr>product_id = 4, name = ''Mug'', description = None, price = 500, stock_quantity = 2\<rparr>,
              \<lparr>product_id = 5, name = ''Pad'', description = None, price = 250, stock_quantity = 0\<rparr>],
      next_id = 6\<rparr>"

definition five_customers :: "customer store" where
  "five_customers =
     \<lparr>rows = [ann, bob, ann\<lparr>customer_id := 3, email := ''c@x.com''\<rparr>,
              ann\<lparr>customer_id := 4, email := ''d@x.com''\<rparr>,
              ann\<lparr>customer_id := 5, email := ''e@x.com''\<rparr>],
      next_id = 6\<rparr>"

section \<open>Facts about the storage adapter\<close>

lemma find_pk_Some: "find (\<lambda>r. f r = i) xs = Some c \<Longrightarrow> f c = i"
  by (induction xs) (auto split: if_splits)

lemma find_Some_mem: "find P xs = Some c \<Longrightarrow> c \<in> set xs"
  by (induction xs) (auto split: if_splits)

lemma find_append_new:
  "\<not> list_ex (\<lambda>x. f x = i) xs \<Longrightarrow> f r = i \<Longrightarrow> find (\<lambda>x. f x = i) (xs @ [r]) = Some r"
  by (induction xs) (auto simp: list_ex_iff)

lemma find_map_replace:
  "find (\<lambda>x. f x = i) xs = Some c \<Longrightarrow> f c' = i \<Longrightarrow>
   find (\<lambda>x. f x = i) (map (\<lambda>x. if f x = i then c' else x) xs) = Some c'"
  by (induction xs) (auto split: if_splits)

lemma find_filter_gone: "find (\<lambda>x. f x = i) (filter (\<lambda>x. f x \<noteq> i) xs) = None"
  by (simp add: find_None_iff)

lemma db_get_db [simp]: "db (get_db st) = st"
  by (simp add: get_db_def)

lemma pending_get_db [simp]: "pending (get_db st) = []"
  by (simp add: get_db_def)

lemma commit_fault: "commit sch (Some e) s = (Some e, s)"
  by (simp add: commit_def)

lemma commit_no_pending: "commit sch None (get_db st) = (None, get_db st)"
  by (simp add: commit_def get_db_def)

lemma rollback_add: "rollback (add (get_db st) r) = get_db st"
  by (simp add: rollback_def add_def get_db_def)

lemma rollback_delete: "rollback (delete (get_db st) r) = get_db st"
  by (simp add: rollback_def delete_def get_db_def)

lemma rollback_mark_dirty: "rollback (mark_dirty (get_db st) r r') = get_db st"
  by (simp add: rollback_def mark_dirty_def get_db_def)

lemma commit_add:
  "commit sch None (add (get_db st) r) =
     (let r' = set_pk sch (next_id st) r
      in if list_ex (\<lambda>x. pk sch x = pk sch r' \<or> clash sch x r') (rows st)
         then (Some IntegrityError, add (get_db st) r)
         else (None, get_db \<lparr>rows = rows st @ [r'], next_id = next_id st + 1\<rparr>))"
  by (simp add: commit_def add_def get_db_def Let_def)

lemma commit_delete:
  "commit sch None (delete (get_db st) r) =
     (None, get_db (st\<lparr>rows := filter (\<lambda>x. pk sch x \<noteq> pk sch r) (rows st)\<rparr>))"
  by (simp add: commit_def delete_def get_db_def)

lemma commit_mark_dirty:
  "r' \<noteq> r \<Longrightarrow> commit sch None (mark_dirty (get_db st) r r') =
     (if list_ex (\<lambda>x. pk sch x \<noteq> pk sch r' \<and> clash sch x r') (rows st)
      then (Some IntegrityError, mark_dirty (get_db st) r r')
      else (None, get_db (st\<lparr>rows := map (\<lambda>x. if pk sch x = pk sch r' then r' else x) (rows st)\<rparr>)))"
  by (simp add: commit_def mark_dirty_def get_db_def)

lemma commit_mark_clean: "commit sch None (mark_dirty (get_db st) r r) = (None, get_db st)"
  by (simp add: commit_def mark_dirty_def get_db_def)

section \<open>The customer handlers, case by case\<close>

lemma create_customer_fault:
  "create_customer (Some e) c st =
     (Inl (if e = IntegrityError then HTTPException 400 ''Email already registered.''
           else HTTPException 500 ''Could not create customer.''), get_db st)"
  by (cases e) (simp_all add: create_customer_def commit_fault rollback_add)

lemma create_customer_no_fault:
  "create_customer None c st =
     (if list_ex (\<lambda>x. customer_id x = next_id st \<or> email x = cc_email c) (rows st)
      then (Inl (HTTPException 400 ''Email already registered.''), get_db st)
      else (Inr (201, new_customer (next_id st) c),
            get_db \<lparr>rows = rows st @ [new_customer (next_id st) c], next_id = next_id st + 1\<rparr>))"
proof (cases "list_ex (\<lambda>x. customer_id x = next_id st \<or> email x = cc_email c) (rows st)")
  case True
  then show ?thesis
    by (simp add: create_customer_def commit_add customer_schema_def rollback_add)
next
  case False
  then have "\<not> list_ex (\<lambda>x. customer_id x = next_id st) (rows st)"
    by (auto simp: list_ex_iff)
  then have "find (\<lambda>x. customer_id x = next_id st) (rows st @ [new_customer (next_id st) c])
      = Some (new_customer (next_id st) c)"
    by (rule find_append_new) (simp add: new_customer_def)
  with False show ?thesis
    by (simp add: create_customer_def commit_add customer_schema_def refresh_def
        new_customer_def)
qed




lemma foldl_customer_setattr:
  "foldl customer_setattr c (customer_model_dump u) = customer_patch u c"
  by (simp add: customer_model_dump_def customer_patch_def split: option.splits)

lemma customer_patch_id [simp]: "customer_id (customer_patch u c) = customer_id c"
  by (simp add: customer_patch_def)

lemma update_customer_missing:
  "find (\<lambda>r. customer_id r = i) (rows st) = None \<Longrightarrow>
   update_customer fault i u st = (Inl (HTTPException 404 ''Customer not found''), get_db st)"
  by (simp add: update_customer_def query_first_def customer_schema_def)

lemma update_customer_fault:
  "find (\<lambda>r. customer_id r = i) (rows st) = Some c \<Longrightarrow>
   update_customer (Some e) i u st =
     (Inl (if e = IntegrityError then HTTPException 400 ''Updated email already exists''
           else HTTPException 500 ''Could not update customer''), get_db st)"
  by (cases e)
    (simp_all add: update_customer_def query_first_def customer_schema_def commit_fault
      rollback_mark_dirty)

lemma update_customer_no_fault:
  assumes f: "find (\<lambda>r. customer_id r = i) (rows st) = Some c"
  shows "update_customer None i u st =
     (if customer_patch u c = c then (Inr (200, c), get_db st)
      else if list_ex (\<lambda>x. customer_id x \<noteq> i \<and> email x = email (customer_patch u c)) (rows st)
      then (Inl (HTTPException 400 ''Updated email already exists''), get_db st)
      else (Inr (200, customer_patch u c),
            get_db (st\<lparr>rows := map (\<lambda>x. if customer_id x = i then customer_patch u c else x)
                                 (rows st)\<rparr>)))"
proof -
  from f have ci: "customer_id c = i"
    by (rule find_pk_Some)
  have q: "query_first customer_schema (get_db st) i = Some c"
    using f by (simp add: query_first_def customer_schema_def)
  show ?thesis
  proof (cases "customer_patch u c = c")
    case True
    have "refresh customer_schema (get_db st) (customer_id c) = Some c"
      using f ci by (simp add: refresh_def customer_schema_def)
    then show ?thesis
      unfolding update_customer_def Let_def q foldl_customer_setattr option.case True
        commit_mark_clean
      by simp
  next
    case False
    have r: "find (\<lambda>x. customer_id x = i)
            (map (\<lambda>x. if customer_id x = i then customer_patch u c else x) (rows st))
          = Some (customer_patch u c)"
      using f by (rule find_map_replace) (simp add: ci)
    have cm: "commit customer_schema None (mark_dirty (get_db st) c (customer_patch u c)) =
       (if list_ex (\<lambda>x. customer_id x \<noteq> i \<and> email x = email (customer_patch u c)) (rows st)
        then (Some IntegrityError, mark_dirty (get_db st) c (customer_patch u c))
        else (None, get_db (st\<lparr>rows := map (\<lambda>x. if customer_id x = i
                                                  then customer_patch u c else x) (rows st)\<rparr>)))"
      using False ci by (simp add: commit_mark_dirty) (simp add: customer_schema_def)
    show ?thesis
      unfolding update_customer_def Let_def q foldl_customer_setattr option.case cm
      using r ci False by (simp add: refresh_def rollback_mark_dirty customer_schema_def)
  qed
qed

lemma delete_customer_missing:
  "find (\<lambda>r. customer_id r = i) (rows st) = None \<Longrightarrow>
   delete_customer fault i st = (Inl (HTTPException 404 ''Customer not found''), get_db st)"
  by (simp add: delete_customer_def query_first_def customer_schema_def)

lemma delete_customer_fault:
  "find (\<lambda>r. customer_id r = i) (rows st) = Some c \<Longrightarrow>
   delete_customer (Some e) i st =
     (Inl (HTTPException 500 ''Could not delete customer''), get_db st)"
  by (simp add: delete_customer_def query_first_def customer_schema_def commit_fault
      rollback_delete)

lemma delete_customer_no_fault:
  assumes f: "find (\<lambda>r. customer_id r = i) (rows st) = Some c"
  shows "delete_customer None i st =
     (Inr (204, ()), get_db (st\<lparr>rows := filter (\<lambda>x. customer_id x \<noteq> i) (rows st)\<rparr>))"
proof -
  from f have ci: "customer_id c = i"
    by (rule find_pk_Some)
  have q: "query_first customer_schema (get_db st) i = Some c"
    using f by (simp add: query_first_def customer_schema_def)
  show ?thesis
    unfolding delete_customer_def Let_def q option.case commit_delete
    using ci by (simp add: customer_schema_def)
qed

lemma get_customer_eq:
  "get_customer i st =
     (case find (\<lambda>r. customer_id r = i) (rows st) of
        None \<Rightarrow> (Inl (HTTPException 404 ''Customer not found''), get_db st)
      | Some c \<Rightarrow> (Inr (200, c), get_db st))"
  by (simp add: get_customer_def query_first_def customer_schema_def split: option.splits)

section \<open>The product handlers, case by case\<close>

lemma create_product_fault:
  "create_product (Some e) c st =
     (Inl (if e = IntegrityError then HTTPException 400 ''Product already exists''
           else HTTPException 500 ''Could not create product''), get_db st)"
  by (cases e) (simp_all add: create_product_def commit_fault rollback_add)

lemma create_product_no_fault:
  "create_product None c st =
     (if list_ex (\<lambda>x. product_id x = next_id st \<or> name x = pc_name c) (rows st)
      then (Inl (HTTPException 400 ''Product already exists''), get_db st)
      else (Inr (201, new_product (next_id st) c),
            get_db \<lparr>rows = rows st @ [new_product (next_id st) c], next_id = next_id st + 1\<rparr>))"
proof (cases "list_ex (\<lambda>x. product_id x = next_id st \<or> name x = pc_name c) (rows st)")
  case True
  then show ?thesis
    by (simp add: create_product_def commit_add product_schema_def rollback_add)
next
  case False
  then have "\<not> list_ex (\<lambda>x. product_id x = next_id st) (rows st)"
    by (auto simp: list_ex_iff)
  then have "find (\<lambda>x. product_id x = next_id st) (rows st @ [new_product (next_id st) c])
      = Some (new_product (next_id st) c)"
    by (rule find_append_new) (simp add: new_product_def)
  with False show ?thesis
    by (simp add: create_product_def commit_add product_schema_def refresh_def
        new_product_def)
qed




lemma foldl_product_setattr:
  "foldl product_setattr c (product_model_dump u) = product_patch u c"
  by (simp add: product_model_dump_def product_patch_def split: option.splits)

lemma product_patch_id [simp]: "product_id (product_patch u c) = product_id c"
  by (simp add: product_patch_def)

lemma update_product_missing:
  "find (\<lambda>r. product_id r = i) (rows st) = None \<Longrightarrow>
   update_product fault i u st = (Inl (HTTPException 404 ''Product not found''), get_db st)"
  by (simp add: update_product_def query_first_def product_schema_def)

lemma update_product_fault:
  "find (\<lambda>r. product_id r = i) (rows st) = Some c \<Longrightarrow>
   update_product (Some e) i u st =
     (Inl (HTTPException 500 ''Could not update product''), get_db st)"
  by (cases e)
    (simp_all add: update_product_def query_first_def product_schema_def commit_fault
      rollback_mark_dirty)

lemma update_product_no_fault:
  assumes f: "find (\<lambda>r. product_id r = i) (rows st) = Some c"
  shows "update_product None i u st =
     (if product_patch u c = c then (Inr (200, c), get_db st)
      else if list_ex (\<lambda>x. product_id x \<noteq> i \<and> name x = name (product_patch u c)) (rows st)
      then (Inl (HTTPException 500 ''Could not update product''), get_db st)
      else (Inr (200, product_patch u c),
            get_db (st\<lparr>rows := map (\<lambda>x. if product_id x = i then product_patch u c else x)
                                 (rows st)\<rparr>)))"
proof -
  from f have ci: "product_id c = i"
    by (rule find_pk_Some)
  have q: "query_first product_schema (get_db st) i = Some c"
    using f by (simp add: query_first_def product_schema_def)
  show ?thesis
  proof (cases "product_patch u c = c")
    case True
    have "refresh product_schema (get_db st) (product_id c) = Some c"
      using f ci by (simp add: refresh_def product_schema_def)
    then show ?thesis
      unfolding update_product_def Let_def q foldl_product_setattr option.case True
        commit_mark_clean
      by simp
  next
    case False
    have r: "find (\<lambda>x. product_id x = i)
            (map (\<lambda>x. if product_id x = i then product_patch u c else x) (rows st))
          = Some (product_patch u c)"
      using f by (rule find_map_replace) (simp add: ci)
    have cm: "commit product_schema None (mark_dirty (get_db st) c (product_patch u c)) =
       (if list_ex (\<lambda>x. product_id x \<noteq> i \<and> name x = name (product_patch u c)) (rows st)
        then (Some IntegrityError, mark_dirty (get_db st) c (product_patch u c))
        else (None, get_db (st\<lparr>rows := map (\<lambda>x. if product_id x = i
                                                  then product_patch u c else x) (rows st)\<rparr>)))"
      using False ci by (simp add: commit_mark_dirty) (simp add: product_schema_def)
    show ?thesis
      unfolding update_product_def Let_def q foldl_product_setattr option.case cm
      using r ci False by (simp add: refresh_def rollback_mark_dirty product_schema_def)
  qed
qed

lemma delete_product_missing:
  "find (\<lambda>r. product_id r = i) (rows st) = None \<Longrightarrow>
   delete_product fault i st = (Inl (HTTPException 404 ''Product not found''), get_db st)"
  by (simp add: delete_product_def query_first_def product_schema_def)

lemma delete_product_fault:
  "find (\<lambda>r. product_id r = i) (rows st) = Some c \<Longrightarrow>
   delete_product (Some e) i st =
     (Inl (HTTPException 500 ''Could not delete product''), get_db st)"
  by (simp add: delete_product_def query_first_def product_schema_def commit_fault
      rollback_delete)

lemma delete_product_no_fault:
  assumes f: "find (\<lambda>r. product_id r = i) (rows st) = Some c"
  shows "delete_product None i st =
     (Inr (204, ()), get_db (st\<lparr>rows := filter (\<lambda>x. product_id x \<noteq> i) (rows st)\<rparr>))"
proof -
  from f have ci: "product_id c = i"
    by (rule find_pk_Some)
  have q: "query_first product_schema (get_db st) i = Some c"
    using f by (simp add: query_first_def product_schema_def)
  show ?thesis
    unfolding delete_product_def Let_def q option.case commit_delete
    using ci by (simp add: product_schema_def)
qed

lemma get_product_eq:
  "get_product i st =
     (case find (\<lambda>r. product_id r = i) (rows st) of
        None \<Rightarrow> (Inl (HTTPException 404 ''Product not found''), get_db st)
      | Some c \<Rightarrow> (Inr (200, c), get_db st))"
  by (simp add: get_product_def query_first_def product_schema_def split: option.splits)

section \<open>The order handlers, case by case\<close>

lemma create_order_fault:
  "create_order (Some e) x st =
     (Inl (Unhandled e), add (get_db st) \<lparr>order_id = 0, order_fields = x\<rparr>)"
  by (simp add: create_order_def commit_fault)

lemma create_order_no_fault:
  "create_order None x st =
     (if list_ex (\<lambda>r. order_id r = next_id st) (rows st)
      then (Inl (Unhandled IntegrityError), add (get_db st) \<lparr>order_id = 0, order_fields = x\<rparr>)
      else (Inr (201, \<lparr>order_id = next_id st, order_fields = x\<rparr>),
            get_db \<lparr>rows = rows st @ [\<lparr>order_id = next_id st, order_fields = x\<rparr>],
                    next_id = next_id st + 1\<rparr>))"
proof (cases "list_ex (\<lambda>r. order_id r = next_id st) (rows st)")
  case True
  then show ?thesis
    by (simp add: create_order_def commit_add order_schema_def)
next
  case False
  then have "find (\<lambda>r. order_id r = next_id st)
      (rows st @ [\<lparr>order_id = next_id st, order_fields = x\<rparr>])
      = Some \<lparr>order_id = next_id st, order_fields = x\<rparr>"
    by (rule find_append_new) simp
  with False show ?thesis
    by (simp add: create_order_def commit_add order_schema_def refresh_def)
qed

lemma get_order_eq:
  "get_order i st =
     (case find (\<lambda>r. order_id r = i) (rows st) of
        None \<Rightarrow> (Inl (HTTPException 404 ''Order not found''), get_db st)
      | Some r \<Rightarrow> (Inr (200, r), get_db st))"
  by (simp add: get_order_def query_first_def order_schema_def split: option.splits)

lemma delete_order_missing:
  "find (\<lambda>r. order_id r = i) (rows st) = None \<Longrightarrow>
   delete_order fault i st = (Inl (HTTPException 404 ''Order not found''), get_db st)"
  by (simp add: delete_order_def query_first_def order_schema_def)

lemma delete_order_fault:
  "find (\<lambda>r. order_id r = i) (rows st) = Some r \<Longrightarrow>
   delete_order (Some e) i st = (Inl (Unhandled e), delete (get_db st) r)"
  by (simp add: delete_order_def query_first_def order_schema_def commit_fault)

lemma delete_order_no_fault:
  assumes f: "find (\<lambda>r. order_id r = i) (rows st) = Some r"
  shows "delete_order None i st =
     (Inr (204, ()), get_db (st\<lparr>rows := filter (\<lambda>x. order_id x \<noteq> i) (rows st)\<rparr>))"
proof -
  from f have ri: "order_id r = i"
    by (rule find_pk_Some)
  have q: "query_first order_schema (get_db st) i = Some r"
    using f by (simp add: query_first_def order_schema_def)
  show ?thesis
    unfolding delete_order_def Let_def q option.case commit_delete
    using ri by (simp add: order_schema_def)
qed

lemma db_add [simp]: "db (add s r) = db s"
  by (simp add: add_def)

lemma db_delete [simp]: "db (delete s r) = db s"
  by (simp add: delete_def)

lemma pending_add: "pending (add (get_db st) r) = [Added r]"
  by (simp add: add_def)

lemma pending_delete: "pending (delete (get_db st) r) = [Deleted r]"
  by (simp add: delete_def)

section \<open>Missing ids\<close>

lemma find_None_list_ex: "find P xs = None \<longleftrightarrow> \<not> list_ex P xs"
  by (auto simp: find_None_iff list_ex_iff)

lemma delete_customer_then_get:
  assumes "fst (delete_customer fault j st) = Inr ok"
  shows "fst (get_customer j (db (snd (delete_customer fault j st)))) =
    Inl (HTTPException 404 ''Customer not found'')"
proof (cases "find (\<lambda>r. customer_id r = j) (rows st)")
  case None
  with assms show ?thesis
    by (simp add: delete_customer_missing)
next
  case (Some c)
  show ?thesis
  proof (cases fault)
    case None
    then show ?thesis
      using Some by (simp add: delete_customer_no_fault get_customer_eq find_filter_gone)
  next
    case (Some e)
    with assms \<open>find (\<lambda>r. customer_id r = j) (rows st) = Some c\<close> show ?thesis
      by (simp add: delete_customer_fault)
  qed
qed

lemma delete_product_then_get:
  assumes "fst (delete_product fault j st) = Inr ok"
  shows "fst (get_product j (db (snd (delete_product fault j st)))) =
    Inl (HTTPException 404 ''Product not found'')"
proof (cases "find (\<lambda>r. product_id r = j) (rows st)")
  case None
  with assms show ?thesis
    by (simp add: delete_product_missing)
next
  case (Some c)
  show ?thesis
  proof (cases fault)
    case None
    then show ?thesis
      using Some by (simp add: delete_product_no_fault get_product_eq find_filter_gone)
  next
    case (Some e)
    with assms \<open>find (\<lambda>r. product_id r = j) (rows st) = Some c\<close> show ?thesis
      by (simp add: delete_product_fault)
  qed
qed

lemma delete_order_then_get:
  assumes "fst (delete_order fault j st) = Inr ok"
  shows "fst (get_order j (db (snd (delete_order fault j st)))) =
    Inl (HTTPException 404 ''Order not found'')"
proof (cases "find (\<lambda>r. order_id r = j) (rows st)")
  case None
  with assms show ?thesis
    by (simp add: delete_order_missing)
next
  case (Some c)
  show ?thesis
  proof (cases fault)
    case None
    then show ?thesis
      using Some by (simp add: delete_order_no_fault get_order_eq find_filter_gone)
  next
    case (Some e)
    with assms \<open>find (\<lambda>r. order_id r = j) (rows st) = Some c\<close> show ?thesis
      by (simp add: delete_order_fault)
  qed
qed

text \<open>
  Claim C5. When no row of the table has the id, Get, Update and Delete fail with
  \<^verbatim>\<open>HTTPException(404)\<close> and the session they leave is the one they were given: the table
  is unchanged and nothing is pending. This holds in the customer and product services
  and, for Get and Delete, in the order service (which has no Update). After a Delete
  that succeeded, a Get of the same id on the resulting table fails with 404.
\<close>

theorem missing_id_not_found:
  "(\<not> list_ex (\<lambda>r. customer_id r = i) (rows cst) \<longrightarrow>
      get_customer i cst = (Inl (HTTPException 404 ''Customer not found''), get_db cst) \<and>
      update_customer fault i cu cst =
        (Inl (HTTPException 404 ''Customer not found''), get_db cst) \<and>
      delete_customer fault i cst =
        (Inl (HTTPException 404 ''Customer not found''), get_db cst)) \<and>
   (\<not> list_ex (\<lambda>r. product_id r = i) (rows pst) \<longrightarrow>
      get_product i pst = (Inl (HTTPException 404 ''Product not found''), get_db pst) \<and>
      update_product fault i pu pst =
        (Inl (HTTPException 404 ''Product not found''), get_db pst) \<and>
      delete_product fault i pst =
        (Inl (HTTPException 404 ''Product not found''), get_db pst)) \<and>
   (\<not> list_ex (\<lambda>r. order_id r = i) (rows ost) \<longrightarrow>
      get_order i ost = (Inl (HTTPException 404 ''Order not found''), get_db ost) \<and>
      delete_order fault i ost = (Inl (HTTPException 404 ''Order not found''), get_db ost)) \<and>
   (fst (delete_customer fault j cst) = Inr (204, ()) \<longrightarrow>
      fst (get_customer j (db (snd (delete_customer fault j cst)))) =
        Inl (HTTPException 404 ''Customer not found'')) \<and>
   (fst (delete_product fault j pst) = Inr (204, ()) \<longrightarrow>
      fst (get_product j (db (snd (delete_product fault j pst)))) =
        Inl (HTTPException 404 ''Product not found'')) \<and>
   (fst (delete_order fault j ost) = Inr (204, ()) \<longrightarrow>
      fst (get_order j (db (snd (delete_order fault j ost)))) =
        Inl (HTTPException 404 ''Order not found''))"
proof -
  have c: "\<not> list_ex (\<lambda>r. customer_id r = i) (rows cst) \<longrightarrow>
      get_customer i cst = (Inl (HTTPException 404 ''Customer not found''), get_db cst) \<and>
      update_customer fault i cu cst =
        (Inl (HTTPException 404 ''Customer not found''), get_db cst) \<and>
      delete_customer fault i cst =
        (Inl (HTTPException 404 ''Customer not found''), get_db cst)"
    by (simp add: find_None_list_ex [symmetric] get_customer_eq update_customer_missing
        delete_customer_missing)
  have p: "\<not> list_ex (\<lambda>r. product_id r = i) (rows pst) \<longrightarrow>
      get_product i pst = (Inl (HTTPException 404 ''Product not found''), get_db pst) \<and>
      update_product fault i pu pst =
        (Inl (HTTPException 404 ''Product not found''), get_db pst) \<and>
      delete_product fault i pst =
        (Inl (HTTPException 404 ''Product not found''), get_db pst)"
    by (simp add: find_None_list_ex [symmetric] get_product_eq update_product_missing
        delete_product_missing)
  have o: "\<not> list_ex (\<lambda>r. order_id r = i) (rows ost) \<longrightarrow>
      get_order i ost = (Inl (HTTPException 404 ''Order not found''), get_db ost) \<and>
      delete_order fault i ost = (Inl (HTTPException 404 ''Order not found''), get_db ost)"
    by (simp add: find_None_list_ex [symmetric] get_order_eq delete_order_missing)
  from c p o show ?thesis
    using delete_customer_then_get [of fault j cst] delete_product_then_get [of fault j pst]
      delete_order_then_get [of fault j ost]
    by blast
qed

lemma find_ann: "find (\<lambda>r. customer_id r = 1) (rows two_customers) = Some ann"
  by (simp add: two_customers_def ann_def)

lemma find_bob: "find (\<lambda>r. customer_id r = 2) (rows two_customers) = Some bob"
  by (simp add: two_customers_def ann_def bob_def)

lemma find_pen: "find (\<lambda>r. product_id r = 1) (rows two_products) = Some pen"
  by (simp add: two_products_def pen_def)

lemma find_ink: "find (\<lambda>r. product_id r = 2) (rows two_products) = Some ink"
  by (simp add: two_products_def pen_def ink_def)

lemma find_order_1:
  "find (\<lambda>r. order_id r = 1) (rows five_orders) = Some \<lparr>order_id = 1, order_fields = ''a''\<rparr>"
  by (simp add: five_orders_def)

theorem missing_id_not_found_witness:
  "\<not> list_ex (\<lambda>r. customer_id r = 999999) (rows two_customers) \<and>
   get_customer 999999 two_customers =
     (Inl (HTTPException 404 ''Customer not found''), get_db two_customers) \<and>
   update_customer None 999999 no_customer_update two_customers =
     (Inl (HTTPException 404 ''Customer not found''), get_db two_customers) \<and>
   delete_customer None 999999 two_customers =
     (Inl (HTTPException 404 ''Customer not found''), get_db two_customers) \<and>
   \<not> list_ex (\<lambda>r. product_id r = 999999) (rows two_products) \<and>
   delete_product None 999999 two_products =
     (Inl (HTTPException 404 ''Product not found''), get_db two_products) \<and>
   \<not> list_ex (\<lambda>r. order_id r = 999999) (rows five_orders) \<and>
   delete_order None 999999 five_orders =
     (Inl (HTTPException 404 ''Order not found''), get_db five_orders) \<and>
   fst (delete_customer None 1 two_customers) = Inr (204, ()) \<and>
   fst (get_customer 1 (db (snd (delete_customer None 1 two_customers)))) =
     Inl (HTTPException 404 ''Customer not found'') \<and>
   fst (delete_product None 1 two_products) = Inr (204, ()) \<and>
   fst (get_product 1 (db (snd (delete_product None 1 two_products)))) =
     Inl (HTTPException 404 ''Product not found'') \<and>
   fst (delete_order None 1 five_orders) = Inr (204, ()) \<and>
   fst (get_order 1 (db (snd (delete_order None 1 five_orders)))) =
     Inl (HTTPException 404 ''Order not found'')"
proof -
  have c: "\<not> list_ex (\<lambda>r. customer_id r = 999999) (rows two_customers)"
    by (simp add: two_customers_def ann_def bob_def)
  have p: "\<not> list_ex (\<lambda>r. product_id r = 999999) (rows two_products)"
    by (simp add: two_products_def pen_def ink_def)
  have o: "\<not> list_ex (\<lambda>r. order_id r = 999999) (rows five_orders)"
    by (simp add: five_orders_def)
  have dc: "fst (delete_customer None 1 two_customers) = Inr (204, ())"
    by (simp add: delete_customer_no_fault [OF find_ann])
  have dp: "fst (delete_product None 1 two_products) = Inr (204, ())"
    by (simp add: delete_product_no_fault [OF find_pen])
  have do: "fst (delete_order None 1 five_orders) = Inr (204, ())"
    by (simp add: delete_order_no_fault [OF find_order_1])
  from c p o dc dp do show ?thesis
    using missing_id_not_found [where i = 999999 and j = 1 and fault = None
        and cst = two_customers and pst = two_products and ost = five_orders
        and cu = no_customer_update and pu = no_product_update]
    by blast
qed

section \<open>Partial updates\<close>

lemma update_customer_ok:
  assumes f: "find (\<lambda>r. customer_id r = i) (rows st) = Some c"
    and ok: "fst (update_customer fault i u st) = Inr (code, c')"
  shows "code = 200 \<and> c' = customer_patch u c \<and>
    find (\<lambda>r. customer_id r = i) (rows (db (snd (update_customer fault i u st)))) = Some c'"
proof (cases fault)
  case (Some e)
  with f ok show ?thesis
    by (simp add: update_customer_fault)
next
  case None
  from f have ci: "customer_id c = i"
    by (rule find_pk_Some)
  have r: "find (\<lambda>x. customer_id x = i)
      (map (\<lambda>x. if customer_id x = i then customer_patch u c else x) (rows st))
      = Some (customer_patch u c)"
    using f by (rule find_map_replace) (simp add: ci)
  from ok f r show ?thesis
    unfolding None update_customer_no_fault [OF f]
    by (auto split: if_splits)
qed

lemma update_product_ok:
  assumes f: "find (\<lambda>r. product_id r = i) (rows st) = Some p"
    and ok: "fst (update_product fault i u st) = Inr (code, p')"
  shows "code = 200 \<and> p' = product_patch u p \<and>
    find (\<lambda>r. product_id r = i) (rows (db (snd (update_product fault i u st)))) = Some p'"
proof (cases fault)
  case (Some e)
  with f ok show ?thesis
    by (simp add: update_product_fault)
next
  case None
  from f have pi: "product_id p = i"
    by (rule find_pk_Some)
  have r: "find (\<lambda>x. product_id x = i)
      (map (\<lambda>x. if product_id x = i then product_patch u p else x) (rows st))
      = Some (product_patch u p)"
    using f by (rule find_map_replace) (simp add: pi)
  from ok f r show ?thesis
    unfolding None update_product_no_fault [OF f]
    by (auto split: if_splits)
qed

text \<open>
  Claim C4. When Update succeeds on an existing customer or product, the entity it
  returns, which is also the row then stored under the id, has in every field that the
  partial input sent the sent value, and in every field that the input omitted the
  value the row had; the id (and a customer's password hash) cannot be changed.
\<close>

theorem update_changes_sent_fields_only:
  "(find (\<lambda>r. customer_id r = i) (rows cst) = Some c \<and>
    fst (update_customer fault i cu cst) = Inr (code, c') \<longrightarrow>
      code = 200 \<and>
      find (\<lambda>r. customer_id r = i) (rows (db (snd (update_customer fault i cu cst)))) = Some c' \<and>
      customer_id c' = customer_id c \<and>
      password_hash c' = password_hash c \<and>
      email c' = (case cu_email cu of None \<Rightarrow> email c | Some v \<Rightarrow> v) \<and>
      first_name c' = (case cu_first_name cu of None \<Rightarrow> first_name c | Some v \<Rightarrow> v) \<and>
      last_name c' = (case cu_last_name cu of None \<Rightarrow> last_name c | Some v \<Rightarrow> v) \<and>
      phone_number c' = (case cu_phone_number cu of None \<Rightarrow> phone_number c | Some v \<Rightarrow> v) \<and>
      shipping_address c' =
        (case cu_shipping_address cu of None \<Rightarrow> shipping_address c | Some v \<Rightarrow> v)) \<and>
   (find (\<lambda>r. product_id r = i) (rows pst) = Some p \<and>
    fst (update_product fault i pu pst) = Inr (code, p') \<longrightarrow>
      code = 200 \<and>
      find (\<lambda>r. product_id r = i) (rows (db (snd (update_product fault i pu pst)))) = Some p' \<and>
      product_id p' = product_id p \<and>
      name p' = (case pu_name pu of None \<Rightarrow> name p | Some v \<Rightarrow> v) \<and>
      description p' = (case pu_description pu of None \<Rightarrow> description p | Some v \<Rightarrow> v) \<and>
      price p' = (case pu_price pu of None \<Rightarrow> price p | Some v \<Rightarrow> v) \<and>
      stock_quantity p' =
        (case pu_stock_quantity pu of None \<Rightarrow> stock_quantity p | Some v \<Rightarrow> v))"
proof (intro conjI impI)
  assume a: "find (\<lambda>r. customer_id r = i) (rows cst) = Some c \<and>
    fst (update_customer fault i cu cst) = Inr (code, c')"
  then have *: "code = 200 \<and> c' = customer_patch cu c \<and>
    find (\<lambda>r. customer_id r = i) (rows (db (snd (update_customer fault i cu cst)))) = Some c'"
    using update_customer_ok [of i cst c fault cu code c'] by blast
  from * show "code = 200" by blast
  from * show
    "find (\<lambda>r. customer_id r = i) (rows (db (snd (update_customer fault i cu cst)))) = Some c'"
    by blast
  from * show "customer_id c' = customer_id c" by simp
  from * show "password_hash c' = password_hash c" by (simp add: customer_patch_def)
  from * show "email c' = (case cu_email cu of None \<Rightarrow> email c | Some v \<Rightarrow> v)"
    by (simp add: customer_patch_def)
  from * show "first_name c' = (case cu_first_name cu of None \<Rightarrow> first_name c | Some v \<Rightarrow> v)"
    by (simp add: customer_patch_def)
  from * show "last_name c' = (case cu_last_name cu of None \<Rightarrow> last_name c | Some v \<Rightarrow> v)"
    by (simp add: customer_patch_def)
  from * show
    "phone_number c' = (case cu_phone_number cu of None \<Rightarrow> phone_number c | Some v \<Rightarrow> v)"
    by (simp add: customer_patch_def)
  from * show "shipping_address c' =
      (case cu_shipping_address cu of None \<Rightarrow> shipping_address c | Some v \<Rightarrow> v)"
    by (simp add: customer_patch_def)
next
  assume a: "find (\<lambda>r. product_id r = i) (rows pst) = Some p \<and>
    fst (update_product fault i pu pst) = Inr (code, p')"
  then have *: "code = 200 \<and> p' = product_patch pu p \<and>
    find (\<lambda>r. product_id r = i) (rows (db (snd (update_product fault i pu pst)))) = Some p'"
    using update_product_ok [of i pst p fault pu code p'] by blast
  from * show "code = 200" by blast
  from * show
    "find (\<lambda>r. product_id r = i) (rows (db (snd (update_product fault i pu pst)))) = Some p'"
    by blast
  from * show "product_id p' = product_id p" by simp
  from * show "name p' = (case pu_name pu of None \<Rightarrow> name p | Some v \<Rightarrow> v)"
    by (simp add: product_patch_def)
  from * show "description p' = (case pu_description pu of None \<Rightarrow> description p | Some v \<Rightarrow> v)"
    by (simp add: product_patch_def)
  from * show "price p' = (case pu_price pu of None \<Rightarrow> price p | Some v \<Rightarrow> v)"
    by (simp add: product_patch_def)
  from * show "stock_quantity p' =
      (case pu_stock_quantity pu of None \<Rightarrow> stock_quantity p | Some v \<Rightarrow> v)"
    by (simp add: product_patch_def)
qed

lemma update_ann_first_name:
  "fst (update_customer None 1 only_first_name two_customers) =
     Inr (200, ann\<lparr>first_name := ''X''\<rparr>)"
proof -
  have p: "customer_patch only_first_name ann = ann\<lparr>first_name := ''X''\<rparr>"
    by (simp add: customer_patch_def only_first_name_def ann_def)
  have ne: "ann\<lparr>first_name := ''X''\<rparr> \<noteq> ann"
    by (simp add: ann_def)
  have free: "\<not> list_ex (\<lambda>x. customer_id x \<noteq> 1 \<and> email x = email (ann\<lparr>first_name := ''X''\<rparr>))
      (rows two_customers)"
    by (simp add: two_customers_def ann_def bob_def)
  show ?thesis
    unfolding update_customer_no_fault [OF find_ann] p
    using ne free by simp
qed

lemma update_pen_price:
  "fst (update_product None 1 only_price two_products) = Inr (200, pen\<lparr>price := 175\<rparr>)"
proof -
  have p: "product_patch only_price pen = pen\<lparr>price := 175\<rparr>"
    by (simp add: product_patch_def only_price_def pen_def)
  have ne: "pen\<lparr>price := 175\<rparr> \<noteq> pen"
    by (simp add: pen_def)
  have free: "\<not> list_ex (\<lambda>x. product_id x \<noteq> 1 \<and> name x = name (pen\<lparr>price := 175\<rparr>))
      (rows two_products)"
    by (simp add: two_products_def pen_def ink_def)
  show ?thesis
    unfolding update_product_no_fault [OF find_pen] p
    using ne free by simp
qed

theorem update_changes_sent_fields_only_witness:
  "find (\<lambda>r. customer_id r = 1) (rows two_customers) = Some ann \<and>
   fst (update_customer None 1 only_first_name two_customers) =
     Inr (200, ann\<lparr>first_name := ''X''\<rparr>) \<and>
   find (\<lambda>r. customer_id r = 1)
     (rows (db (snd (update_customer None 1 only_first_name two_customers)))) =
     Some (ann\<lparr>first_name := ''X''\<rparr>) \<and>
   first_name (ann\<lparr>first_name := ''X''\<rparr>) = ''X'' \<and>
   email (ann\<lparr>first_name := ''X''\<rparr>) = email ann \<and>
   last_name (ann\<lparr>first_name := ''X''\<rparr>) = last_name ann \<and>
   phone_number (ann\<lparr>first_name := ''X''\<rparr>) = phone_number ann \<and>
   shipping_address (ann\<lparr>first_name := ''X''\<rparr>) = shipping_address ann \<and>
   find (\<lambda>r. product_id r = 1) (rows two_products) = Some pen \<and>
   fst (update_product None 1 only_price two_products) = Inr (200, pen\<lparr>price := 175\<rparr>) \<and>
   find (\<lambda>r. product_id r = 1)
     (rows (db (snd (update_product None 1 only_price two_products)))) =
     Some (pen\<lparr>price := 175\<rparr>) \<and>
   name (pen\<lparr>price := 175\<rparr>) = name pen \<and>
   stock_quantity (pen\<lparr>price := 175\<rparr>) = stock_quantity pen"
  using update_changes_sent_fields_only [where i = 1 and fault = None
      and cst = two_customers and c = ann and cu = only_first_name and code = 200
      and c' = "ann\<lparr>first_name := ''X''\<rparr>"
      and pst = two_products and p = pen and pu = only_price and p' = "pen\<lparr>price := 175\<rparr>"]
    find_ann find_pen update_ann_first_name update_pen_price
  by (simp add: only_first_name_def only_price_def)

section \<open>The empty update\<close>

lemma customer_patch_nothing [simp]: "customer_patch no_customer_update c = c"
  by (simp add: customer_patch_def no_customer_update_def)

lemma product_patch_nothing [simp]: "product_patch no_product_update p = p"
  by (simp add: product_patch_def no_product_update_def)

text \<open>
  Claim C10. An Update of an existing customer or product whose partial input sets no
  field answers 200 with the row as it is, and leaves the table as it was, when the
  commit meets no storage failure: the empty update is an accepted no-op.
\<close>

theorem empty_update_is_noop:
  "(find (\<lambda>r. customer_id r = i) (rows cst) = Some c \<longrightarrow>
      customer_model_dump no_customer_update = [] \<and>
      update_customer None i no_customer_update cst = (Inr (200, c), get_db cst)) \<and>
   (find (\<lambda>r. product_id r = i) (rows pst) = Some p \<longrightarrow>
      product_model_dump no_product_update = [] \<and>
      update_product None i no_product_update pst = (Inr (200, p), get_db pst))"
  by (simp add: update_customer_no_fault update_product_no_fault customer_model_dump_def
      product_model_dump_def no_customer_update_def [symmetric]
      no_product_update_def [symmetric])
    (simp add: no_customer_update_def no_product_update_def)

theorem empty_update_is_noop_witness:
  "find (\<lambda>r. customer_id r = 2) (rows two_customers) = Some bob \<and>
   update_customer None 2 no_customer_update two_customers = (Inr (200, bob), get_db two_customers) \<and>
   db (get_db two_customers) = two_customers \<and>
   find (\<lambda>r. product_id r = 2) (rows two_products) = Some ink \<and>
   update_product None 2 no_product_update two_products = (Inr (200, ink), get_db two_products)"
  using empty_update_is_noop [where i = 2 and cst = two_customers and c = bob
      and pst = two_products and p = ink] find_bob find_ink
  by simp

text \<open>
  Claim C7. The code at the failing input: the table holds the products ``Pen'' (id 1)
  and ``Ink'' (id 2), and \<^verbatim>\<open>PUT /products/2\<close> sets the name to ``Pen''. The commit
  raises \<^verbatim>\<open>IntegrityError\<close>; \<^verbatim>\<open>update_product\<close> has only \<^verbatim>\<open>except Exception\<close>, rolls back and
  answers 500, where \<^verbatim>\<open>update_customer\<close> answers 400 for the same violation on the email.
\<close>

theorem update_product_conflict_answers_500:
  "update_product None 2 rename_to_pen two_products =
     (Inl (HTTPException 500 ''Could not update product''), get_db two_products) \<and>
   update_customer None 2 email_of_ann two_customers =
     (Inl (HTTPException 400 ''Updated email already exists''), get_db two_customers)"
proof -
  have pp: "product_patch rename_to_pen ink = ink\<lparr>name := ''Pen''\<rparr>"
    by (simp add: product_patch_def rename_to_pen_def ink_def)
  have pne: "ink\<lparr>name := ''Pen''\<rparr> \<noteq> ink"
    by (simp add: ink_def)
  have ptaken: "list_ex (\<lambda>x. product_id x \<noteq> 2 \<and> name x = name (ink\<lparr>name := ''Pen''\<rparr>))
      (rows two_products)"
    by (simp add: two_products_def pen_def ink_def)
  have cp: "customer_patch email_of_ann bob = bob\<lparr>email := ''a@x.com''\<rparr>"
    by (simp add: customer_patch_def email_of_ann_def bob_def)
  have cne: "bob\<lparr>email := ''a@x.com''\<rparr> \<noteq> bob"
    by (simp add: bob_def)
  have ctaken: "list_ex (\<lambda>x. customer_id x \<noteq> 2 \<and> email x = email (bob\<lparr>email := ''a@x.com''\<rparr>))
      (rows two_customers)"
    by (simp add: two_customers_def ann_def bob_def)
  show ?thesis
    unfolding update_product_no_fault [OF find_ink] update_customer_no_fault [OF find_bob] pp cp
    using pne ptaken cne ctaken by simp
qed

section \<open>Storage failures at commit\<close>

lemma create_customer_error_exit:
  "fst (create_customer fault c st) = Inl x \<Longrightarrow> snd (create_customer fault c st) = get_db st"
  by (cases fault) (simp_all add: create_customer_fault create_customer_no_fault split: if_splits)

lemma update_customer_error_exit:
  assumes "fst (update_customer fault i u st) = Inl x"
  shows "snd (update_customer fault i u st) = get_db st"
proof (cases "find (\<lambda>r. customer_id r = i) (rows st)")
  case None
  then show ?thesis
    by (simp add: update_customer_missing)
next
  case (Some c)
  with assms show ?thesis
    by (cases fault)
      (simp_all add: update_customer_fault update_customer_no_fault split: if_splits)
qed

lemma delete_customer_error_exit:
  assumes "fst (delete_customer fault i st) = Inl x"
  shows "snd (delete_customer fault i st) = get_db st"
proof (cases "find (\<lambda>r. customer_id r = i) (rows st)")
  case None
  then show ?thesis
    by (simp add: delete_customer_missing)
next
  case (Some c)
  with assms show ?thesis
    by (cases fault) (simp_all add: delete_customer_fault delete_customer_no_fault)
qed

lemma create_product_error_exit:
  "fst (create_product fault p st) = Inl x \<Longrightarrow> snd (create_product fault p st) = get_db st"
  by (cases fault) (simp_all add: create_product_fault create_product_no_fault split: if_splits)

lemma update_product_error_exit:
  assumes "fst (update_product fault i u st) = Inl x"
  shows "snd (update_product fault i u st) = get_db st"
proof (cases "find (\<lambda>r. product_id r = i) (rows st)")
  case None
  then show ?thesis
    by (simp add: update_product_missing)
next
  case (Some c)
  with assms show ?thesis
    by (cases fault)
      (simp_all add: update_product_fault update_product_no_fault split: if_splits)
qed

lemma delete_product_error_exit:
  assumes "fst (delete_product fault i st) = Inl x"
  shows "snd (delete_product fault i st) = get_db st"
proof (cases "find (\<lambda>r. product_id r = i) (rows st)")
  case None
  then show ?thesis
    by (simp add: delete_product_missing)
next
  case (Some c)
  with assms show ?thesis
    by (cases fault) (simp_all add: delete_product_fault delete_product_no_fault)
qed

lemma create_order_error_exit:
  "fst (create_order fault x st) = Inl err \<Longrightarrow> db (snd (create_order fault x st)) = st"
  by (cases fault) (simp_all add: create_order_fault create_order_no_fault split: if_splits)

lemma delete_order_error_exit:
  assumes "fst (delete_order fault i st) = Inl err"
  shows "db (snd (delete_order fault i st)) = st"
proof (cases "find (\<lambda>r. order_id r = i) (rows st)")
  case None
  then show ?thesis
    by (simp add: delete_order_missing)
next
  case (Some r)
  with assms show ?thesis
    by (cases fault) (simp_all add: delete_order_fault delete_order_no_fault)
qed

text \<open>
  Claim C2, as stated, at a concrete input: the commit of \<^verbatim>\<open>create_order\<close> meets an
  \<^verbatim>\<open>OperationalError\<close>. The handler has no \<^verbatim>\<open>try\<close>: the driver's exception leaves it as it
  is, not as an \<^verbatim>\<open>HTTPException\<close>, and \<^verbatim>\<open>db.rollback()\<close> is not called, so the session still
  holds the insert.
\<close>

theorem create_order_failure_is_not_rolled_back:
  "fst (create_order (Some OperationalError) ''f'' five_orders) = Inl (Unhandled OperationalError) \<and>
   pending (snd (create_order (Some OperationalError) ''f'' five_orders)) =
     [Added \<lparr>order_id = 0, order_fields = ''f''\<rparr>] \<and>
   snd (create_order (Some OperationalError) ''f'' five_orders) \<noteq>
     rollback (snd (create_order (Some OperationalError) ''f'' five_orders))"
  by (simp add: create_order_fault pending_add rollback_def add_def get_db_def)

text \<open>
  Claim C2, amended. In the customer and product services a storage failure \<open>e\<close> raised
  by the commit of Create, Update or Delete is answered after \<^verbatim>\<open>db.rollback()\<close>: the
  session left is the one the request began with. \<^verbatim>\<open>create_customer\<close>,
  \<^verbatim>\<open>update_customer\<close> and \<^verbatim>\<open>create_product\<close> answer 400 for an \<^verbatim>\<open>IntegrityError\<close> and 500 for
  any other failure; the Delete handlers answer 500 for every failure, and
  \<^verbatim>\<open>update_product\<close> answers 500 for every failure other than an \<^verbatim>\<open>IntegrityError\<close>. Every
  error exit of these six handlers leaves the table unchanged and nothing pending. In
  the order service Create and Delete have no such wrapper: the failure leaves the
  handler unhandled and without a rollback; the table is unchanged all the same.
\<close>

theorem commit_failure_handling:
  "create_customer (Some e) cc cst =
     (Inl (if e = IntegrityError then HTTPException 400 ''Email already registered.''
           else HTTPException 500 ''Could not create customer.''), get_db cst) \<and>
   (find (\<lambda>r. customer_id r = i) (rows cst) = Some c \<longrightarrow>
      update_customer (Some e) i cu cst =
        (Inl (if e = IntegrityError then HTTPException 400 ''Updated email already exists''
              else HTTPException 500 ''Could not update customer''), get_db cst) \<and>
      delete_customer (Some e) i cst =
        (Inl (HTTPException 500 ''Could not delete customer''), get_db cst)) \<and>
   create_product (Some e) pc pst =
     (Inl (if e = IntegrityError then HTTPException 400 ''Product already exists''
           else HTTPException 500 ''Could not create product''), get_db pst) \<and>
   (find (\<lambda>r. product_id r = i) (rows pst) = Some p \<longrightarrow>
      snd (update_product (Some e) i pu pst) = get_db pst \<and>
      (e \<noteq> IntegrityError \<longrightarrow>
         fst (update_product (Some e) i pu pst) =
           Inl (HTTPException 500 ''Could not update product'')) \<and>
      delete_product (Some e) i pst =
        (Inl (HTTPException 500 ''Could not delete product''), get_db pst)) \<and>
   (fst (create_customer fault cc cst) = Inl x1 \<longrightarrow>
      snd (create_customer fault cc cst) = get_db cst) \<and>
   (fst (update_customer fault i cu cst) = Inl x2 \<longrightarrow>
      snd (update_customer fault i cu cst) = get_db cst) \<and>
   (fst (delete_customer fault i cst) = Inl x3 \<longrightarrow>
      snd (delete_customer fault i cst) = get_db cst) \<and>
   (fst (create_product fault pc pst) = Inl x4 \<longrightarrow>
      snd (create_product fault pc pst) = get_db pst) \<and>
   (fst (update_product fault i pu pst) = Inl x5 \<longrightarrow>
      snd (update_product fault i pu pst) = get_db pst) \<and>
   (fst (delete_product fault i pst) = Inl x6 \<longrightarrow>
      snd (delete_product fault i pst) = get_db pst) \<and>
   create_order (Some e) oc ost =
     (Inl (Unhandled e), add (get_db ost) \<lparr>order_id = 0, order_fields = oc\<rparr>) \<and>
   (find (\<lambda>r. order_id r = i) (rows ost) = Some r \<longrightarrow>
      delete_order (Some e) i ost = (Inl (Unhandled e), delete (get_db ost) r)) \<and>
   (fst (create_order fault oc ost) = Inl x7 \<longrightarrow> db (snd (create_order fault oc ost)) = ost) \<and>
   (fst (delete_order fault i ost) = Inl x8 \<longrightarrow> db (snd (delete_order fault i ost)) = ost)"
proof -
  have a: "find (\<lambda>r. customer_id r = i) (rows cst) = Some c \<longrightarrow>
      update_customer (Some e) i cu cst =
        (Inl (if e = IntegrityError then HTTPException 400 ''Updated email already exists''
              else HTTPException 500 ''Could not update customer''), get_db cst) \<and>
      delete_customer (Some e) i cst =
        (Inl (HTTPException 500 ''Could not delete customer''), get_db cst)"
    by (simp add: update_customer_fault delete_customer_fault)
  have b: "find (\<lambda>r. product_id r = i) (rows pst) = Some p \<longrightarrow>
      snd (update_product (Some e) i pu pst) = get_db pst \<and>
      (e \<noteq> IntegrityError \<longrightarrow>
         fst (update_product (Some e) i pu pst) =
           Inl (HTTPException 500 ''Could not update product'')) \<and>
      delete_product (Some e) i pst =
        (Inl (HTTPException 500 ''Could not delete product''), get_db pst)"
    by (simp add: update_product_fault delete_product_fault)
  have d: "find (\<lambda>r. order_id r = i) (rows ost) = Some r \<longrightarrow>
      delete_order (Some e) i ost = (Inl (Unhandled e), delete (get_db ost) r)"
    by (simp add: delete_order_fault)
  note exits = create_customer_error_exit [of fault cc cst x1]
    update_customer_error_exit [of fault i cu cst x2]
    delete_customer_error_exit [of fault i cst x3]
    create_product_error_exit [of fault pc pst x4]
    update_product_error_exit [of fault i pu pst x5]
    delete_product_error_exit [of fault i pst x6]
    create_order_error_exit [of fault oc ost x7]
    delete_order_error_exit [of fault i ost x8]
  from a b d exits show ?thesis
    using create_customer_fault [of e cc cst] create_product_fault [of e pc pst]
      create_order_fault [of e oc ost]
    by blast
qed

theorem commit_failure_handling_witness:
  "find (\<lambda>r. customer_id r = 1) (rows two_customers) = Some ann \<and>
   find (\<lambda>r. product_id r = 1) (rows two_products) = Some pen \<and>
   find (\<lambda>r. order_id r = 1) (rows five_orders) = Some \<lparr>order_id = 1, order_fields = ''a''\<rparr> \<and>
   OperationalError \<noteq> IntegrityError \<and>
   fst (create_customer (Some OperationalError) carl two_customers) =
     Inl (HTTPException 500 ''Could not create customer.'') \<and>
   snd (create_customer (Some OperationalError) carl two_customers) = get_db two_customers \<and>
   fst (update_customer (Some OperationalError) 1 only_first_name two_customers) =
     Inl (HTTPException 500 ''Could not update customer'') \<and>
   snd (update_customer (Some OperationalError) 1 only_first_name two_customers) =
     get_db two_customers \<and>
   fst (delete_customer (Some OperationalError) 1 two_customers) =
     Inl (HTTPException 500 ''Could not delete customer'') \<and>
   snd (delete_customer (Some OperationalError) 1 two_customers) = get_db two_customers \<and>
   fst (create_product (Some OperationalError) cap two_products) =
     Inl (HTTPException 500 ''Could not create product'') \<and>
   snd (create_product (Some OperationalError) cap two_products) = get_db two_products \<and>
   fst (update_product (Some OperationalError) 1 only_price two_products) =
     Inl (HTTPException 500 ''Could not update product'') \<and>
   snd (update_product (Some OperationalError) 1 only_price two_products) = get_db two_products \<and>
   fst (delete_product (Some OperationalError) 1 two_products) =
     Inl (HTTPException 500 ''Could not delete product'') \<and>
   snd (delete_product (Some OperationalError) 1 two_products) = get_db two_products \<and>
   fst (create_order (Some OperationalError) ''f'' five_orders) =
     Inl (Unhandled OperationalError) \<and>
   db (snd (create_order (Some OperationalError) ''f'' five_orders)) = five_orders \<and>
   fst (delete_order (Some OperationalError) 1 five_orders) = Inl (Unhandled OperationalError) \<and>
   db (snd (delete_order (Some OperationalError) 1 five_orders)) = five_orders"
  using commit_failure_handling [where e = OperationalError and fault = "Some OperationalError"
      and i = 1 and cst = two_customers and c = ann and cc = carl and cu = only_first_name
      and pst = two_products and p = pen and pc = cap and pu = only_price
      and ost = five_orders and oc = "''f''" and r = "\<lparr>order_id = 1, order_fields = ''a''\<rparr>"
      and ?x1.0 = "HTTPException 500 ''Could not create customer.''"
      and ?x2.0 = "HTTPException 500 ''Could not update customer''"
      and ?x3.0 = "HTTPException 500 ''Could not delete customer''"
      and ?x4.0 = "HTTPException 500 ''Could not create product''"
      and ?x5.0 = "HTTPException 500 ''Could not update product''"
      and ?x6.0 = "HTTPException 500 ''Could not delete product''"
      and ?x7.0 = "Unhandled OperationalError" and ?x8.0 = "Unhandled OperationalError"]
    find_ann find_pen find_order_1
  by simp

section \<open>Listing\<close>

lemma list_customers_page:
  "0 \<le> skip \<Longrightarrow> 0 \<le> limit \<Longrightarrow>
   list_customers (Some skip) (Some limit) None st =
     (Inr (200, take (nat limit) (drop (nat skip) (rows st))), get_db st)"
  by (simp add: list_customers_def offset_limit_def)

lemma list_products_page:
  "0 \<le> skip \<Longrightarrow> 0 \<le> limit \<Longrightarrow>
   list_products (Some skip) (Some limit) st =
     (Inr (200, take (nat limit) (drop (nat skip) (rows st))), get_db st)"
  by (simp add: list_products_def offset_limit_def)

lemma list_customers_default_skip:
  "list_customers None limit search st = list_customers (Some 0) limit search st"
  by (simp add: list_customers_def)

lemma list_customers_default_limit:
  "list_customers skip None search st = list_customers skip (Some 100) search st"
  by (simp add: list_customers_def)

lemma list_products_default_skip:
  "list_products None limit st = list_products (Some 0) limit st"
  by (simp add: list_products_def)

lemma list_products_default_limit:
  "list_products skip None st = list_products skip (Some 100) st"
  by (simp add: list_products_def)

text \<open>
  Claim C3, as stated, at a concrete input: the order table holds five rows and the
  caller asks for \<^verbatim>\<open>skip=0, limit=2\<close>. \<^verbatim>\<open>list_orders\<close> has no such parameters: it returns
  all five rows, not the first two.
\<close>

theorem list_orders_ignores_limit:
  "fst (list_orders five_orders) = Inr (200, rows five_orders) \<and>
   length (rows five_orders) = 5 \<and>
   fst (list_orders five_orders) \<noteq> Inr (200, take 2 (drop 0 (rows five_orders)))"
  by (simp add: list_orders_def five_orders_def)

text \<open>
  Claim C3, amended. For customers (without a search) and products, List with
  non-negative \<open>skip\<close> and \<open>limit\<close> returns the rows of the table in insertion order
  without the first \<open>skip\<close> rows and cut after \<open>limit\<close> rows, so at most \<open>limit\<close> rows;
  \<open>skip\<close> defaults to 0 and \<open>limit\<close> to 100; the table is not changed. The order
  service's List takes no \<open>skip\<close> and no \<open>limit\<close> and returns every row in insertion
  order.
\<close>

theorem list_returns_page:
  "(0 \<le> skip \<and> 0 \<le> limit \<longrightarrow>
      list_customers (Some skip) (Some limit) None cst =
        (Inr (200, take (nat limit) (drop (nat skip) (rows cst))), get_db cst) \<and>
      list_products (Some skip) (Some limit) pst =
        (Inr (200, take (nat limit) (drop (nat skip) (rows pst))), get_db pst) \<and>
      length (take (nat limit) (drop (nat skip) (rows cst))) \<le> nat limit \<and>
      length (take (nat limit) (drop (nat skip) (rows pst))) \<le> nat limit) \<and>
   list_customers None lim search cst = list_customers (Some 0) lim search cst \<and>
   list_customers sk None search cst = list_customers sk (Some 100) search cst \<and>
   list_products None lim pst = list_products (Some 0) lim pst \<and>
   list_products sk None pst = list_products sk (Some 100) pst \<and>
   list_orders ost = (Inr (200, rows ost), get_db ost)"
proof -
  have page: "0 \<le> skip \<and> 0 \<le> limit \<longrightarrow>
      list_customers (Some skip) (Some limit) None cst =
        (Inr (200, take (nat limit) (drop (nat skip) (rows cst))), get_db cst) \<and>
      list_products (Some skip) (Some limit) pst =
        (Inr (200, take (nat limit) (drop (nat skip) (rows pst))), get_db pst) \<and>
      length (take (nat limit) (drop (nat skip) (rows cst))) \<le> nat limit \<and>
      length (take (nat limit) (drop (nat skip) (rows pst))) \<le> nat limit"
    by (simp add: list_customers_page list_products_page)
  have orders: "list_orders ost = (Inr (200, rows ost), get_db ost)"
    by (simp add: list_orders_def)
  from page orders show ?thesis
    using list_customers_default_skip [of lim search cst]
      list_customers_default_limit [of sk search cst]
      list_products_default_skip [of lim pst] list_products_default_limit [of sk pst]
    by blast
qed

theorem list_returns_page_witness:
  "(0::int) \<le> 0 \<and> (0::int) \<le> 2 \<and>
   list_customers (Some 0) (Some 2) None five_customers =
     (Inr (200, [ann, bob]), get_db five_customers) \<and>
   list_products (Some 0) (Some 2) five_products = (Inr (200, [pen, ink]), get_db five_products) \<and>
   length (rows five_customers) = 5 \<and> length (rows five_products) = 5 \<and>
   list_products None None five_products = list_products (Some 0) None five_products \<and>
   list_products None None five_products = list_products None (Some 100) five_products \<and>
   list_orders five_orders = (Inr (200, rows five_orders), get_db five_orders)"
proof -
  note t = list_returns_page [where skip = 0 and limit = 2 and cst = five_customers
      and pst = five_products and ost = five_orders and lim = None and sk = None
      and search = None]
  have h: "(0::int) \<le> 0 \<and> (0::int) \<le> 2"
    by simp
  from t h have c: "list_customers (Some 0) (Some 2) None five_customers =
      (Inr (200, take (nat 2) (drop (nat 0) (rows five_customers))), get_db five_customers)"
    by blast
  from t h have p: "list_products (Some 0) (Some 2) five_products =
      (Inr (200, take (nat 2) (drop (nat 0) (rows five_products))), get_db five_products)"
    by blast
  have ec: "take (nat 2) (drop (nat 0) (rows five_customers)) = [ann, bob]"
    by (simp add: five_customers_def)
  have ep: "take (nat 2) (drop (nat 0) (rows five_products)) = [pen, ink]"
    by (simp add: five_products_def)
  have n: "length (rows five_customers) = 5 \<and> length (rows five_products) = 5"
    by (simp add: five_customers_def five_products_def)
  from t have d: "list_products None None five_products = list_products (Some 0) None five_products \<and>
      list_products None None five_products = list_products None (Some 100) five_products \<and>
      list_orders five_orders = (Inr (200, rows five_orders), get_db five_orders)"
    by blast
  from h c p n d show ?thesis
    unfolding ec ep by blast
qed

end
